theory Spec2Isabelle
  imports Complex_Main
begin

section \<open>Data model\<close>

text \<open>
  The interfaces of \<^verbatim>\<open>src/frontend/src/App.tsx\<close>. Identifiers are JavaScript numbers
  that the backend fills with integers; optional fields are options.
\<close>

record User =
  User_id :: int
  User_name :: string

record Name =
  Name_id :: int
  Name_name :: string
  gender :: "string option"
  origin :: "string option"
  meaning :: "string option"

text \<open>The union type \<^verbatim>\<open>'like' | 'dislike' | 'maybe'\<close> of the swipe callbacks.\<close>

datatype direction = Like | Dislike | Maybe

datatype View = View_swipe | View_matches

record Dashboard =
  matches :: "Name list"
  kyle_likes :: "Name list"
  emily_likes :: "Name list"
  rejected :: "Name list"

text \<open>The six \<^verbatim>\<open>useState\<close> cells of the \<^verbatim>\<open>App\<close> component.\<close>

record AppState =
  users :: "User list"
  currentUser :: "User option"
  names :: "Name list"
  loading :: bool
  view :: View
  dashboard :: "Dashboard option"

text \<open>The JSON body of \<^verbatim>\<open>POST /swipe\<close>.\<close>

record SwipeBody =
  user_id :: int
  name_id :: int
  decision :: direction

text \<open>
  What a handler does to the outside: the requests it issues through axios and the lines
  it writes with \<^verbatim>\<open>console.error\<close>. A world is the React state together with the log of
  these effects, oldest first.
\<close>

datatype Effect =
  GET_recommendations int
  | POST_swipe SwipeBody
  | Console_error

type_synonym World = "AppState \<times> Effect list"

text \<open>The settlement of an awaited axios promise.\<close>

datatype 'a response = Resolved 'a | Rejected

section \<open>JavaScript numbers and their comparisons\<close>

text \<open>
  The drag offset is a JavaScript number. Finite doubles are reals, and the relational
  operators compare them as reals; the three special values are written out. Every
  comparison with \<^verbatim>\<open>NaN\<close> is false.
\<close>

datatype number = Num real | NaN | Infinity | NegInfinity

fun number_lt :: "number \<Rightarrow> number \<Rightarrow> bool" where
  "number_lt NaN b = False"
| "number_lt a NaN = False"
| "number_lt (Num a) (Num b) = (a < b)"
| "number_lt (Num a) Infinity = True"
| "number_lt (Num a) NegInfinity = False"
| "number_lt Infinity b = False"
| "number_lt NegInfinity (Num b) = True"
| "number_lt NegInfinity Infinity = True"
| "number_lt NegInfinity NegInfinity = False"

text \<open>\<^verbatim>\<open>a > b\<close> is \<^verbatim>\<open>b < a\<close> with the operands swapped.\<close>

definition number_gt :: "number \<Rightarrow> number \<Rightarrow> bool" where
  "number_gt a b = number_lt b a"

section \<open>The swipe card widget (SwipeCard.tsx)\<close>

text \<open>
  The second argument of \<^verbatim>\<open>onDragEnd\<close>; only \<^verbatim>\<open>info.offset.x\<close> is read.
\<close>

record PanInfo =
  offset_x :: number

text \<open>
  The \<^verbatim>\<open>onSwipe\<close> prop is a callback. It is modelled as a transformer of whatever the
  caller's world is, so that calling it once, or not at all, shows in the result.
\<close>

definition handleDragEnd :: "(direction \<Rightarrow> 'w \<Rightarrow> 'w) \<Rightarrow> PanInfo \<Rightarrow> 'w \<Rightarrow> 'w" where
  "handleDragEnd onSwipe info w =
     (if number_gt (offset_x info) (Num 100) then onSwipe Like w
      else if number_lt (offset_x info) (Num (- 100)) then onSwipe Dislike w
      else w)"

text \<open>The user's interactions with one card: releasing a drag, or one of the three buttons.\<close>

datatype CardEvent = DragEnd PanInfo | Click_dislike | Click_maybe | Click_like

fun SwipeCard :: "(direction \<Rightarrow> 'w \<Rightarrow> 'w) \<Rightarrow> CardEvent \<Rightarrow> 'w \<Rightarrow> 'w" where
  "SwipeCard onSwipe (DragEnd info) w = handleDragEnd onSwipe info w"
| "SwipeCard onSwipe Click_dislike w = onSwipe Dislike w"
| "SwipeCard onSwipe Click_maybe w = onSwipe Maybe w"
| "SwipeCard onSwipe Click_like w = onSwipe Like w"

text \<open>A callback that records each call it receives, in order.\<close>

definition record_call :: "direction \<Rightarrow> direction list \<Rightarrow> direction list" where
  "record_call d calls = calls @ [d]"

section \<open>The application controller (App.tsx)\<close>

subsection \<open>State setters and effects\<close>

definition setCurrentUser :: "User option \<Rightarrow> World \<Rightarrow> World" where
  "setCurrentUser u w = ((fst w)\<lparr>currentUser := u\<rparr>, snd w)"

text \<open>\<^verbatim>\<open>setNames\<close> takes an updater; a plain value is the constant updater.\<close>

definition setNames :: "(Name list \<Rightarrow> Name list) \<Rightarrow> World \<Rightarrow> World" where
  "setNames f w = ((fst w)\<lparr>names := f (names (fst w))\<rparr>, snd w)"

definition setLoading :: "bool \<Rightarrow> World \<Rightarrow> World" where
  "setLoading b w = ((fst w)\<lparr>loading := b\<rparr>, snd w)"

definition issue :: "Effect \<Rightarrow> World \<Rightarrow> World" where
  "issue e w = (fst w, snd w @ [e])"

subsection \<open>fetchRecommendations\<close>

text \<open>
  A handler is a closure over the render that created it: it reads \<^verbatim>\<open>currentUser\<close> and
  \<^verbatim>\<open>names\<close> from that render (the argument \<open>c\<close>), while the setters act on the state
  current when they run. An \<^verbatim>\<open>await\<close> splits the handler in two: the part up to the
  request and the part that runs when the promise settles.
\<close>

definition fetchRecommendations_begin :: "AppState \<Rightarrow> World \<Rightarrow> World" where
  "fetchRecommendations_begin c w =
     (case currentUser c of
        None \<Rightarrow> w
      | Some u \<Rightarrow> issue (GET_recommendations (User_id u)) (setLoading True w))"

definition fetchRecommendations_end :: "Name list response \<Rightarrow> World \<Rightarrow> World" where
  "fetchRecommendations_end r w =
     setLoading False
       (case r of
          Resolved data \<Rightarrow> setNames (\<lambda>_. data) w
        | Rejected \<Rightarrow> issue Console_error w)"

text \<open>The whole call when nothing else runs while the request is in flight.\<close>

definition fetchRecommendations :: "AppState \<Rightarrow> Name list response \<Rightarrow> World \<Rightarrow> World" where
  "fetchRecommendations c r w =
     (case currentUser c of
        None \<Rightarrow> w
      | Some u \<Rightarrow> fetchRecommendations_end r (fetchRecommendations_begin c w))"

subsection \<open>handleSwipe\<close>

text \<open>
  After the guard the handler reads \<^verbatim>\<open>names[0]\<close> and builds the request inside
  \<^verbatim>\<open>try\<close>. A property read on \<^verbatim>\<open>null\<close> or \<^verbatim>\<open>undefined\<close> there would throw into
  the \<^verbatim>\<open>catch\<close>; that is the last case below.
\<close>

definition handleSwipe_resume :: "AppState \<Rightarrow> unit response \<Rightarrow> World \<Rightarrow> World" where
  "handleSwipe_resume c r w =
     (case r of
        Resolved _ \<Rightarrow>
          (let w1 = setNames (drop 1) w
           in if length (names c) < 3 then fetchRecommendations_begin c w1 else w1)
      | Rejected \<Rightarrow> issue Console_error w)"

definition handleSwipe :: "AppState \<Rightarrow> unit response \<Rightarrow> direction \<Rightarrow> World \<Rightarrow> World" where
  "handleSwipe c r direction w =
     (if currentUser c = None \<or> length (names c) = 0 then w
      else
        (case (currentUser c, names c) of
           (Some u, currentName # _) \<Rightarrow>
             handleSwipe_resume c r
               (issue (POST_swipe \<lparr>user_id = User_id u, name_id = Name_id currentName,
                                    decision = direction\<rparr>) w)
         | _ \<Rightarrow> issue Console_error w))"

text \<open>The requests for recommendations in a log.\<close>

fun recommendation_fetches :: "Effect list \<Rightarrow> int list" where
  "recommendation_fetches [] = []"
| "recommendation_fetches (GET_recommendations u # es) = u # recommendation_fetches es"
| "recommendation_fetches (e # es) = recommendation_fetches es"

text \<open>The decision submissions in a log.\<close>

fun swipe_posts :: "Effect list \<Rightarrow> SwipeBody list" where
  "swipe_posts [] = []"
| "swipe_posts (POST_swipe b # es) = b # swipe_posts es"
| "swipe_posts (e # es) = swipe_posts es"

subsection \<open>Switching profile\<close>

text \<open>
  The effect hook keyed on \<^verbatim>\<open>currentUser\<close> runs after the render in which that cell
  changed, with that render's closure.
\<close>

definition useEffect_currentUser :: "AppState \<Rightarrow> World \<Rightarrow> World" where
  "useEffect_currentUser c w =
     (if currentUser c \<noteq> None then fetchRecommendations_begin c w else w)"

text \<open>The \<^verbatim>\<open>onClick\<close> of the Switch button, followed by the effect of the next render.\<close>

definition click_Switch :: "World \<Rightarrow> World" where
  "click_Switch w =
     (let w1 = setCurrentUser None w in useEffect_currentUser (fst w1) w1)"

subsection \<open>Rendering\<close>

text \<open>
  The props of one rendered card. The \<^verbatim>\<open>onSwipe\<close> prop is either the controller's
  \<^verbatim>\<open>handleSwipe\<close> or the empty arrow function.
\<close>

datatype Callback = HandleSwipe | Noop

record SwipeCardProps =
  prop_key :: int
  prop_name :: string
  prop_onSwipe :: Callback

text \<open>
  \<^verbatim>\<open>names.slice(0, 2).reverse().map((name, index) => ...)\<close>. Later siblings are painted
  over earlier ones, so the last card of the result is the topmost.
\<close>

definition swipe_cards :: "Name list \<Rightarrow> SwipeCardProps list" where
  "swipe_cards ns =
     map (\<lambda>(index, n).
            \<lparr>prop_key = Name_id n, prop_name = Name_name n,
             prop_onSwipe = (if int index = int (min (length ns) 2) - 1 then HandleSwipe else Noop)\<rparr>)
         (enumerate 0 (rev (take 2 ns)))"

text \<open>What a card's callback does when the widget calls it.\<close>

fun run_callback :: "Callback \<Rightarrow> AppState \<Rightarrow> unit response \<Rightarrow> direction \<Rightarrow> World \<Rightarrow> World" where
  "run_callback HandleSwipe c r d w = handleSwipe c r d w"
| "run_callback Noop c r d w = w"

datatype Screen =
  ProfileSelection "User list"
  | Spinner
  | CardStack "SwipeCardProps list"
  | NoMoreNames
  | MatchesView "Dashboard option"

definition App :: "AppState \<Rightarrow> Screen" where
  "App s =
     (case currentUser s of
        None \<Rightarrow> ProfileSelection (users s)
      | Some u \<Rightarrow>
          (if view s = View_swipe then
             (if loading s \<and> length (names s) = 0 then Spinner
              else if length (names s) > 0 then CardStack (swipe_cards (names s))
              else NoMoreNames)
           else MatchesView (dashboard s)))"

subsection \<open>The first revision's card stack\<close>

text \<open>
  The earliest of the three revisions of \<^verbatim>\<open>App.tsx\<close> kept with the sources wires the
  card at index 1, whatever the length of the queue:
  \<^verbatim>\<open>onSwipe={index === 1 ? handleSwipe : () => { }}\<close>.
\<close>

definition swipe_cards_first_revision :: "Name list \<Rightarrow> SwipeCardProps list" where
  "swipe_cards_first_revision ns =
     map (\<lambda>(index, n).
            \<lparr>prop_key = Name_id n, prop_name = Name_name n,
             prop_onSwipe = (if index = (1::nat) then HandleSwipe else Noop)\<rparr>)
         (enumerate 0 (rev (take 2 ns)))"

text \<open>
  That revision has no matches view: past the profile selection it renders the spinner,
  the card stack or the empty-queue message.
\<close>

definition App_first_revision :: "AppState \<Rightarrow> Screen" where
  "App_first_revision s =
     (case currentUser s of
        None \<Rightarrow> ProfileSelection (users s)
      | Some u \<Rightarrow>
          (if loading s \<and> length (names s) = 0 then Spinner
           else if length (names s) > 0 then CardStack (swipe_cards_first_revision (names s))
           else NoMoreNames))"

section \<open>The scenario of the specification\<close>

definition Kyle :: User where
  "Kyle = \<lparr>User_id = 1, User_name = ''Kyle''\<rparr>"

definition Emily :: User where
  "Emily = \<lparr>User_id = 2, User_name = ''Emily''\<rparr>"

definition candidate :: "int \<Rightarrow> string \<Rightarrow> Name" where
  "candidate i n = \<lparr>Name_id = i, Name_name = n, gender = None, origin = None, meaning = None\<rparr>"

definition Ava :: Name where
  "Ava = candidate 10 ''Ava''"

definition Liam :: Name where
  "Liam = candidate 11 ''Liam''"

definition Noah :: Name where
  "Noah = candidate 12 ''Noah''"

definition Mia :: Name where
  "Mia = candidate 13 ''Mia''"

text \<open>Kyle on the swipe view with the queue \<open>q\<close>, nothing loading.\<close>

definition session :: "Name list \<Rightarrow> AppState" where
  "session q =
     \<lparr>users = [Kyle, Emily], currentUser = Some Kyle, names = q, loading = False,
      view = View_swipe, dashboard = None\<rparr>"

section \<open>Drag classification\<close>

lemma number_gt_Num [simp]: "number_gt (Num a) (Num b) = (b < a)"
  by (simp add: number_gt_def)

lemma number_lt_not_gt:
  "number_lt x (Num (- 100)) \<Longrightarrow> \<not> number_gt x (Num 100)"
  by (cases x) (simp_all add: number_gt_def)

text \<open>
  C10: a drag released at an offset of exactly +100 or exactly -100 makes no call of
  \<^verbatim>\<open>onSwipe\<close>: whatever the callback is, the world is as before, and the recording
  callback has recorded nothing.
\<close>

theorem handleDragEnd_threshold_is_dead_zone:
  "handleDragEnd onSwipe \<lparr>offset_x = Num 100\<rparr> w = w
   \<and> handleDragEnd onSwipe \<lparr>offset_x = Num (- 100)\<rparr> w = w
   \<and> handleDragEnd record_call \<lparr>offset_x = Num 100\<rparr> [] = []
   \<and> handleDragEnd record_call \<lparr>offset_x = Num (- 100)\<rparr> [] = []"
  by (simp add: handleDragEnd_def)

text \<open>
  C2: the release of a drag. JavaScript's \<^verbatim>\<open>>\<close> and \<^verbatim>\<open><\<close> are \<open>number_gt\<close> and
  \<open>number_lt\<close>; on finite offsets they are the order of the reals. An offset above +100
  calls \<^verbatim>\<open>onSwipe\<close> once, with \<^verbatim>\<open>'like'\<close>; an offset below -100 calls it once, with
  \<^verbatim>\<open>'dislike'\<close>; any other offset calls nothing; and no offset yields \<^verbatim>\<open>'maybe'\<close>.
  Each case is stated for an arbitrary callback and for the recording one.
\<close>

theorem handleDragEnd_classifies_release:
  "(number_gt (offset_x info) (Num 100) \<longrightarrow>
      handleDragEnd onSwipe info w = onSwipe Like w
      \<and> handleDragEnd record_call info [] = [Like])
   \<and> (number_lt (offset_x info) (Num (- 100)) \<longrightarrow>
      handleDragEnd onSwipe info w = onSwipe Dislike w
      \<and> handleDragEnd record_call info [] = [Dislike])
   \<and> (\<not> number_gt (offset_x info) (Num 100) \<and> \<not> number_lt (offset_x info) (Num (- 100)) \<longrightarrow>
      handleDragEnd onSwipe info w = w
      \<and> handleDragEnd record_call info [] = [])
   \<and> Maybe \<notin> set (handleDragEnd record_call info [])"
proof -
  have dislike: "\<not> number_gt (offset_x info) (Num 100)"
    if "number_lt (offset_x info) (Num (- 100))"
    using that by (rule number_lt_not_gt)
  show ?thesis
    using dislike by (auto simp add: handleDragEnd_def record_call_def)
qed

theorem handleDragEnd_classifies_release_witness:
  "number_gt (Num 150) (Num 100)
   \<and> handleDragEnd record_call \<lparr>offset_x = Num 150\<rparr> [] = [Like]
   \<and> number_lt (Num (- 150)) (Num (- 100))
   \<and> handleDragEnd record_call \<lparr>offset_x = Num (- 150)\<rparr> [] = [Dislike]
   \<and> \<not> number_gt (Num 50) (Num 100) \<and> \<not> number_lt (Num 50) (Num (- 100))
   \<and> handleDragEnd record_call \<lparr>offset_x = Num 50\<rparr> [] = []
   \<and> \<not> number_gt (Num (- 50)) (Num 100) \<and> \<not> number_lt (Num (- 50)) (Num (- 100))
   \<and> handleDragEnd record_call \<lparr>offset_x = Num (- 50)\<rparr> [] = []"
  using handleDragEnd_classifies_release [of "\<lparr>offset_x = Num 150\<rparr>" record_call "[]"]
    handleDragEnd_classifies_release [of "\<lparr>offset_x = Num (- 150)\<rparr>" record_call "[]"]
    handleDragEnd_classifies_release [of "\<lparr>offset_x = Num 50\<rparr>" record_call "[]"]
    handleDragEnd_classifies_release [of "\<lparr>offset_x = Num (- 50)\<rparr>" record_call "[]"]
  by (simp add: record_call_def)

section \<open>Submitting a decision\<close>

lemma recommendation_fetches_append [simp]:
  "recommendation_fetches (xs @ ys) = recommendation_fetches xs @ recommendation_fetches ys"
  by (induction xs rule: recommendation_fetches.induct) simp_all

lemma swipe_posts_append [simp]:
  "swipe_posts (xs @ ys) = swipe_posts xs @ swipe_posts ys"
  by (induction xs rule: swipe_posts.induct) simp_all

text \<open>
  Past the guard both \<^verbatim>\<open>currentUser\<close> and \<^verbatim>\<open>names[0]\<close> are there: the handler issues
  the request and waits for it, and the throwing case of \<open>handleSwipe\<close> is never taken.
\<close>

lemma handleSwipe_past_guard:
  "currentUser c = Some u \<Longrightarrow> names c = n # ns \<Longrightarrow>
   handleSwipe c r d w =
     handleSwipe_resume c r
       (issue (POST_swipe \<lparr>user_id = User_id u, name_id = Name_id n, decision = d\<rparr>) w)"
  by (simp add: handleSwipe_def)

lemma handleSwipe_Resolved:
  "currentUser c = Some u \<Longrightarrow> names c = n # ns \<Longrightarrow>
   handleSwipe c (Resolved v) d (s, es) =
     (if length (names c) < 3
      then (s\<lparr>names := drop 1 (names s), loading := True\<rparr>,
            es @ [POST_swipe \<lparr>user_id = User_id u, name_id = Name_id n, decision = d\<rparr>,
                  GET_recommendations (User_id u)])
      else (s\<lparr>names := drop 1 (names s)\<rparr>,
            es @ [POST_swipe \<lparr>user_id = User_id u, name_id = Name_id n, decision = d\<rparr>]))"
  by (simp add: handleSwipe_past_guard handleSwipe_resume_def issue_def setNames_def
      fetchRecommendations_begin_def setLoading_def Let_def)

lemma handleSwipe_Rejected:
  "currentUser c = Some u \<Longrightarrow> names c = n # ns \<Longrightarrow>
   handleSwipe c Rejected d (s, es) =
     (s, es @ [POST_swipe \<lparr>user_id = User_id u, name_id = Name_id n, decision = d\<rparr>,
               Console_error])"
  by (simp add: handleSwipe_past_guard handleSwipe_resume_def issue_def)

lemma session_simps [simp]:
  "currentUser (session q) = Some Kyle" "names (session q) = q"
  "view (session q) = View_swipe" "users (session q) = [Kyle, Emily]"
  by (simp_all add: session_def)

lemma scenario_ids [simp]:
  "User_id Kyle = 1" "Name_id Ava = 10" "Name_name Ava = ''Ava''"
  by (simp_all add: Kyle_def Ava_def candidate_def)

text \<open>
  C1, as stated, fails on the scenario of the specification. With the queue
  \<open>[Ava, Liam, Noah]\<close> a successful like leaves two names, fewer than three, and yet no
  recommendations are requested: the handler tests \<^verbatim>\<open>names.length\<close> of its own render,
  which is still three.
\<close>

theorem refill_after_pop_counterexample:
  "\<not> (recommendation_fetches
         (snd (handleSwipe (session [Ava, Liam, Noah]) (Resolved ()) Like
                 (session [Ava, Liam, Noah], []))) \<noteq> []
       \<longleftrightarrow> length (names (fst (handleSwipe (session [Ava, Liam, Noah]) (Resolved ()) Like
                                  (session [Ava, Liam, Noah], [])))) < 3)"
  by (simp add: handleSwipe_Resolved [where u = Kyle and n = Ava and ns = "[Liam, Noah]"])

text \<open>
  C1, amended: when a submission passes the guard and its request succeeds,
  recommendations are requested, once and for the active user, if and only if the queue
  of the render the handler closes over holds fewer than three names, whatever the queue
  has become by the time the request settles. For the handler of the current render that
  queue is the one before the pop, so the request is made if and only if fewer than two
  names remain after it.
\<close>

theorem refill_iff_closure_queue_below_three:
  "currentUser c = Some u \<Longrightarrow> names c \<noteq> [] \<Longrightarrow>
   recommendation_fetches (snd (handleSwipe c (Resolved ()) d (s, []))) =
     (if length (names c) < 3 then [User_id u] else [])
   \<and> (c = s \<longrightarrow>
        (length (names c) < 3
           \<longleftrightarrow> length (names (fst (handleSwipe c (Resolved ()) d (s, [])))) < 2))"
proof -
  assume user: "currentUser c = Some u" and queue: "names c \<noteq> []"
  from queue obtain n ns where head: "names c = n # ns"
    by (cases "names c") simp_all
  have fetch: "recommendation_fetches (snd (handleSwipe c (Resolved ()) d (s, []))) =
      (if length (names c) < 3 then [User_id u] else [])"
    by (simp add: handleSwipe_Resolved [OF user head])
  have pop: "names (fst (handleSwipe c (Resolved ()) d (s, []))) = drop 1 (names s)"
    by (simp add: handleSwipe_Resolved [OF user head])
  have current: "c = s \<longrightarrow>
      (length (names c) < 3
         \<longleftrightarrow> length (names (fst (handleSwipe c (Resolved ()) d (s, [])))) < 2)"
  proof
    assume "c = s"
    with pop head show "length (names c) < 3
        \<longleftrightarrow> length (names (fst (handleSwipe c (Resolved ()) d (s, [])))) < 2"
      by auto
  qed
  from fetch current show ?thesis
    by (rule conjI)
qed

theorem refill_iff_closure_queue_below_three_witness:
  "currentUser (session [Ava, Liam]) = Some Kyle \<and> names (session [Ava, Liam]) \<noteq> []
   \<and> recommendation_fetches
       (snd (handleSwipe (session [Ava, Liam]) (Resolved ()) Like (session [Ava, Liam], []))) = [1]
   \<and> length (names (fst (handleSwipe (session [Ava, Liam]) (Resolved ()) Like
                              (session [Ava, Liam], [])))) < 2
   \<and> currentUser (session [Ava, Liam, Noah]) = Some Kyle
   \<and> names (session [Ava, Liam, Noah]) \<noteq> []
   \<and> recommendation_fetches
       (snd (handleSwipe (session [Ava, Liam, Noah]) (Resolved ()) Like
               (session [Ava, Liam, Noah], []))) = []
   \<and> \<not> length (names (fst (handleSwipe (session [Ava, Liam, Noah]) (Resolved ()) Like
                                (session [Ava, Liam, Noah], [])))) < 2
   \<and> recommendation_fetches
       (snd (handleSwipe (session [Ava, Liam, Noah]) (Resolved ()) Like
               (session [Liam, Noah], []))) = []
   \<and> currentUser (session [Liam]) = Some Kyle \<and> names (session [Liam]) \<noteq> []
   \<and> recommendation_fetches
       (snd (handleSwipe (session [Liam]) (Resolved ()) Like
               (session [Liam, Noah, Mia, Ava], []))) = [1]"
proof -
  have two: "currentUser (session [Ava, Liam]) = Some Kyle"
    "names (session [Ava, Liam]) \<noteq> []"
    by simp_all
  have three: "currentUser (session [Ava, Liam, Noah]) = Some Kyle"
    "names (session [Ava, Liam, Noah]) \<noteq> []"
    by simp_all
  have one: "currentUser (session [Liam]) = Some Kyle" "names (session [Liam]) \<noteq> []"
    by simp_all
  show ?thesis
    using two three one
      refill_iff_closure_queue_below_three [OF two, of Like "session [Ava, Liam]"]
      refill_iff_closure_queue_below_three [OF three, of Like "session [Ava, Liam, Noah]"]
      refill_iff_closure_queue_below_three [OF three, of Like "session [Liam, Noah]"]
      refill_iff_closure_queue_below_three [OF one, of Like "session [Liam, Noah, Mia, Ava]"]
    by simp
qed

text \<open>
  C3: a submission that passes the guard and whose request succeeds removes the head of
  the queue and nothing else: what remains is the tail, in its order. The queue is the one
  current when the request settles; for the handler of the current render, \<open>c = s\<close>.
\<close>

theorem handleSwipe_success_pops_head:
  "currentUser c = Some u \<Longrightarrow> names c \<noteq> [] \<Longrightarrow> names s = n # ns \<Longrightarrow>
   names (fst (handleSwipe c (Resolved ()) d (s, es))) = ns"
  by (cases "names c") (simp_all add: handleSwipe_Resolved)

theorem handleSwipe_success_pops_head_witness:
  "currentUser (session [Ava, Liam, Noah]) = Some Kyle
   \<and> names (session [Ava, Liam, Noah]) \<noteq> []
   \<and> names (session [Ava, Liam, Noah]) = Ava # [Liam, Noah]
   \<and> names (fst (handleSwipe (session [Ava, Liam, Noah]) (Resolved ()) Dislike
                    (session [Ava, Liam, Noah], []))) = [Liam, Noah]"
proof -
  have h: "currentUser (session [Ava, Liam, Noah]) = Some Kyle"
    "names (session [Ava, Liam, Noah]) \<noteq> []"
    "names (session [Ava, Liam, Noah]) = Ava # [Liam, Noah]"
    by simp_all
  show ?thesis
    using h handleSwipe_success_pops_head [OF h, of Dislike "[]"] by simp
qed

text \<open>
  C4: when the request fails, the state is the one before, so the queue keeps its head,
  and the log gains the request and a console line but no request for recommendations.
\<close>

theorem handleSwipe_failure_keeps_queue:
  "currentUser c = Some u \<Longrightarrow> names c \<noteq> [] \<Longrightarrow>
   fst (handleSwipe c Rejected d (s, es)) = s
   \<and> names (fst (handleSwipe c Rejected d (s, es))) = names s
   \<and> recommendation_fetches (snd (handleSwipe c Rejected d (s, es))) = recommendation_fetches es"
  by (cases "names c") (simp_all add: handleSwipe_Rejected)

theorem handleSwipe_failure_keeps_queue_witness:
  "currentUser (session [Ava, Liam]) = Some Kyle \<and> names (session [Ava, Liam]) \<noteq> []
   \<and> fst (handleSwipe (session [Ava, Liam]) Rejected Like (session [Ava, Liam], []))
       = session [Ava, Liam]
   \<and> recommendation_fetches
       (snd (handleSwipe (session [Ava, Liam]) Rejected Like (session [Ava, Liam], []))) = []"
proof -
  have h: "currentUser (session [Ava, Liam]) = Some Kyle" "names (session [Ava, Liam]) \<noteq> []"
    by simp_all
  show ?thesis
    using h handleSwipe_failure_keeps_queue [OF h, of Like "session [Ava, Liam]" "[]"] by simp
qed

text \<open>
  C8: a submission that passes the guard posts exactly one body, made of the active
  user's id, the head candidate's id and the direction, whatever the request's outcome.
\<close>

theorem handleSwipe_posts_decision:
  "currentUser c = Some u \<Longrightarrow> names c = n # ns \<Longrightarrow>
   swipe_posts (snd (handleSwipe c r d (s, []))) =
     [\<lparr>user_id = User_id u, name_id = Name_id n, decision = d\<rparr>]"
  by (cases r) (simp_all add: handleSwipe_Resolved handleSwipe_Rejected)

theorem handleSwipe_posts_decision_witness:
  "currentUser (session [Ava, Liam, Noah]) = Some Kyle
   \<and> names (session [Ava, Liam, Noah]) = Ava # [Liam, Noah]
   \<and> swipe_posts (snd (handleSwipe (session [Ava, Liam, Noah]) (Resolved ()) Like
                          (session [Ava, Liam, Noah], []))) =
       [\<lparr>user_id = 1, name_id = 10, decision = Like\<rparr>]"
proof -
  have h: "currentUser (session [Ava, Liam, Noah]) = Some Kyle"
    "names (session [Ava, Liam, Noah]) = Ava # [Liam, Noah]"
    by simp_all
  show ?thesis
    using h handleSwipe_posts_decision [OF h, of "Resolved ()" Like "session [Ava, Liam, Noah]"]
    by simp
qed

text \<open>
  C9: with no user selected, or with an empty queue, the handler returns at its guard:
  the state and the log are the ones before, for every direction and every outcome the
  network could have given.
\<close>

theorem handleSwipe_guard_is_noop:
  "currentUser c = None \<or> names c = [] \<Longrightarrow> handleSwipe c r d w = w"
  by (auto simp add: handleSwipe_def)

theorem handleSwipe_guard_is_noop_witness:
  "(currentUser (session []) = None \<or> names (session []) = [])
   \<and> handleSwipe (session []) (Resolved ()) Maybe (session [], []) = (session [], [])
   \<and> (currentUser ((session [Ava])\<lparr>currentUser := None\<rparr>) = None
        \<or> names ((session [Ava])\<lparr>currentUser := None\<rparr>) = [])
   \<and> handleSwipe ((session [Ava])\<lparr>currentUser := None\<rparr>) (Resolved ()) Like (session [Ava], [])
       = (session [Ava], [])"
proof -
  have empty_queue: "currentUser (session []) = None \<or> names (session []) = []"
    by simp
  have no_user: "currentUser ((session [Ava])\<lparr>currentUser := None\<rparr>) = None
      \<or> names ((session [Ava])\<lparr>currentUser := None\<rparr>) = []"
    by simp
  show ?thesis
    using empty_queue no_user
      handleSwipe_guard_is_noop [OF empty_queue, of "Resolved ()" Maybe "(session [], [])"]
      handleSwipe_guard_is_noop [OF no_user, of "Resolved ()" Like "(session [Ava], [])"]
    by simp
qed

section \<open>Fetching the queue\<close>

text \<open>
  C7: with a user active, \<^verbatim>\<open>fetchRecommendations\<close> sets the loading flag and issues the
  request for that user. When the request settles, whatever the state \<open>s'\<close> has become,
  a success replaces the queue by the response and a failure leaves the queue as it is,
  and both clear the flag. The last two conjuncts are the whole call with nothing in
  between.
\<close>

theorem fetchRecommendations_replaces_or_keeps:
  "currentUser c = Some u \<Longrightarrow>
   fetchRecommendations_begin c (s, es) =
     (s\<lparr>loading := True\<rparr>, es @ [GET_recommendations (User_id u)])
   \<and> fetchRecommendations_end (Resolved data) (s', es') =
       (s'\<lparr>names := data, loading := False\<rparr>, es')
   \<and> fetchRecommendations_end Rejected (s', es') =
       (s'\<lparr>loading := False\<rparr>, es' @ [Console_error])
   \<and> fetchRecommendations c (Resolved data) (s, es) =
       (s\<lparr>names := data, loading := False\<rparr>, es @ [GET_recommendations (User_id u)])
   \<and> fetchRecommendations c Rejected (s, es) =
       (s\<lparr>loading := False\<rparr>, es @ [GET_recommendations (User_id u), Console_error])"
  by (simp add: fetchRecommendations_def fetchRecommendations_begin_def
      fetchRecommendations_end_def setLoading_def setNames_def issue_def)

theorem fetchRecommendations_replaces_or_keeps_witness:
  "currentUser (session [Ava]) = Some Kyle
   \<and> loading (fst (fetchRecommendations_begin (session [Ava]) (session [Ava], [])))
   \<and> names (fst (fetchRecommendations (session [Ava]) (Resolved [Liam, Noah]) (session [Ava], [])))
       = [Liam, Noah]
   \<and> \<not> loading (fst (fetchRecommendations (session [Ava]) (Resolved [Liam, Noah])
                         (session [Ava], [])))
   \<and> names (fst (fetchRecommendations (session [Ava]) Rejected (session [Ava], []))) = [Ava]
   \<and> \<not> loading (fst (fetchRecommendations (session [Ava]) Rejected (session [Ava], [])))"
proof -
  have h: "currentUser (session [Ava]) = Some Kyle"
    by simp
  show ?thesis
    using h fetchRecommendations_replaces_or_keeps
      [OF h, of "session [Ava]" "[]" "[Liam, Noah]" "session [Ava]" "[]"]
    by simp
qed

section \<open>Switching profile\<close>

text \<open>
  C5, as stated, fails: Switch writes \<^verbatim>\<open>null\<close> to \<^verbatim>\<open>currentUser\<close> and nothing else.
  With Kyle active and the queue \<open>[Ava, Liam, Noah]\<close>, the queue after Switch still holds
  the three names.
\<close>

theorem click_Switch_clears_queue_counterexample:
  "\<not> (currentUser (fst (click_Switch (session [Ava, Liam, Noah], []))) = None
       \<and> names (fst (click_Switch (session [Ava, Liam, Noah], []))) = [])"
  by (simp add: click_Switch_def setCurrentUser_def useEffect_currentUser_def)

text \<open>
  C5, amended: from any state, Switch sets the active user to none, which puts the
  profile selection on screen; the queue and every other cell keep their values, and
  nothing is requested.
\<close>

theorem click_Switch_clears_user_only:
  "click_Switch (s, es) = (s\<lparr>currentUser := None\<rparr>, es)
   \<and> currentUser (fst (click_Switch (s, es))) = None
   \<and> names (fst (click_Switch (s, es))) = names s
   \<and> App (fst (click_Switch (s, es))) = ProfileSelection (users s)"
  by (simp add: click_Switch_def setCurrentUser_def useEffect_currentUser_def App_def)

section \<open>The card stack\<close>

lemma swipe_cards_single:
  "swipe_cards [n] =
     [\<lparr>prop_key = Name_id n, prop_name = Name_name n, prop_onSwipe = HandleSwipe\<rparr>]"
  by (simp add: swipe_cards_def)

lemma swipe_cards_two:
  "swipe_cards (n # m # rest) =
     [\<lparr>prop_key = Name_id m, prop_name = Name_name m, prop_onSwipe = Noop\<rparr>,
      \<lparr>prop_key = Name_id n, prop_name = Name_name n, prop_onSwipe = HandleSwipe\<rparr>]"
  by (simp add: swipe_cards_def)

lemma SwipeCard_Noop: "SwipeCard (run_callback Noop c r) ev w = w"
  by (cases ev) (simp_all add: handleDragEnd_def)

lemma swipe_cards_first_revision_single:
  "swipe_cards_first_revision [n] =
     [\<lparr>prop_key = Name_id n, prop_name = Name_name n, prop_onSwipe = Noop\<rparr>]"
  by (simp add: swipe_cards_first_revision_def)

text \<open>
  The revision in \<^verbatim>\<open>src/frontend\<close>, and the second revision, which has the same
  expression: with a user active, the swipe view selected and a non-empty queue, the
  screen is the stack \<open>swipe_cards\<close> of the queue. It has at most two cards; the last
  one, which is painted on top, is the head of the queue and carries \<^verbatim>\<open>handleSwipe\<close>;
  every card below it carries the empty callback, and no interaction with such a card
  changes the state or issues anything.
\<close>

theorem swipe_view_wires_front_card_only:
  "currentUser s = Some u \<Longrightarrow> view s = View_swipe \<Longrightarrow> names s = n # ns \<Longrightarrow>
   App s = CardStack (swipe_cards (names s))
   \<and> length (swipe_cards (names s)) \<le> 2
   \<and> last (swipe_cards (names s)) =
       \<lparr>prop_key = Name_id n, prop_name = Name_name n, prop_onSwipe = HandleSwipe\<rparr>
   \<and> run_callback (prop_onSwipe (last (swipe_cards (names s)))) c r d w = handleSwipe c r d w
   \<and> (\<forall>p \<in> set (butlast (swipe_cards (names s))).
        prop_onSwipe p = Noop \<and> SwipeCard (run_callback (prop_onSwipe p) c r) ev w = w)"
proof (cases ns)
  case Nil
  assume "currentUser s = Some u" "view s = View_swipe" "names s = n # ns"
  with Nil show ?thesis
    by (simp add: App_def swipe_cards_single)
next
  case (Cons m rest)
  assume "currentUser s = Some u" "view s = View_swipe" "names s = n # ns"
  with Cons show ?thesis
    by (simp add: App_def swipe_cards_two SwipeCard_Noop)
qed

theorem swipe_view_wires_front_card_only_witness:
  "currentUser (session [Ava, Liam, Noah]) = Some Kyle
   \<and> view (session [Ava, Liam, Noah]) = View_swipe
   \<and> names (session [Ava, Liam, Noah]) = Ava # [Liam, Noah]
   \<and> App (session [Ava, Liam, Noah]) = CardStack (swipe_cards [Ava, Liam, Noah])
   \<and> length (swipe_cards [Ava, Liam, Noah]) \<le> 2
   \<and> last (swipe_cards [Ava, Liam, Noah]) =
       \<lparr>prop_key = 10, prop_name = ''Ava'', prop_onSwipe = HandleSwipe\<rparr>
   \<and> map prop_onSwipe (butlast (swipe_cards [Ava, Liam, Noah])) = [Noop]
   \<and> SwipeCard
         (run_callback (prop_onSwipe (hd (swipe_cards [Ava, Liam, Noah])))
            (session [Ava, Liam, Noah]) (Resolved ()))
         Click_like (session [Ava, Liam, Noah], []) = (session [Ava, Liam, Noah], [])"
proof -
  have h: "currentUser (session [Ava, Liam, Noah]) = Some Kyle"
    "view (session [Ava, Liam, Noah]) = View_swipe"
    "names (session [Ava, Liam, Noah]) = Ava # [Liam, Noah]"
    by simp_all
  have below: "hd (swipe_cards [Ava, Liam, Noah]) \<in> set (butlast (swipe_cards [Ava, Liam, Noah]))"
    "length (butlast (swipe_cards [Ava, Liam, Noah])) = 1"
    by (simp_all add: swipe_cards_two)
  from below(2) have one: "butlast (swipe_cards [Ava, Liam, Noah])
      = [hd (swipe_cards [Ava, Liam, Noah])]"
    by (simp add: swipe_cards_two)
  show ?thesis
    using h below(1) one swipe_view_wires_front_card_only
      [OF h, of "session [Ava, Liam, Noah]" "Resolved ()" Like "(session [Ava, Liam, Noah], [])"
        Click_like]
    by simp
qed

text \<open>
  C6 fails on the first revision. With Kyle active and the queue \<open>[Ava]\<close>, the stack is
  the single card of Ava at index 0, which is not index 1: the front card, the only one,
  carries the empty callback, and pressing its like button posts nothing and leaves Ava
  in the queue. The comment under that stack says the top card should be the first of
  \<^verbatim>\<open>names\<close>, and the later revisions compare with \<^verbatim>\<open>Math.min(names.length, 2) - 1\<close>.
\<close>

theorem first_revision_lone_card_is_inert:
  "App_first_revision (session [Ava]) =
     CardStack [\<lparr>prop_key = 10, prop_name = ''Ava'', prop_onSwipe = Noop\<rparr>]
   \<and> prop_onSwipe (last (swipe_cards_first_revision [Ava])) \<noteq> HandleSwipe
   \<and> SwipeCard
         (run_callback (prop_onSwipe (last (swipe_cards_first_revision [Ava])))
            (session [Ava]) (Resolved ()))
         Click_like (session [Ava], []) = (session [Ava], [])"
  by (simp add: App_first_revision_def session_def swipe_cards_first_revision_single)

end
